theory Spec2Isabelle
  imports Complex_Main
begin

section \<open>The students table\<close>

text \<open>
  The notebook \<^verbatim>\<open>matching.ipynb\<close> reads a spreadsheet into a table, derives three flag
  columns, builds a mixed integer program with the \<^verbatim>\<open>mip\<close> package, solves it and
  writes the table back with one more column. The model starts from the table that
  \<^verbatim>\<open>pd.read_excel\<close> returns. A cell of that table is a number, is missing (NaN) or is
  text. Reading the file has already turned an empty cell and text such as
  \<^verbatim>\<open>n/a\<close>, \<^verbatim>\<open>NA\<close> or \<^verbatim>\<open>null\<close> into NaN, and text that reads as a number into
  a number, so \<open>Text\<close> stands for text that is still text in the table. Numbers are
  modelled as reals: the code only compares them and uses them as coefficients.
\<close>

datatype cell = Num real | Missing | Text string

text \<open>The exceptions that the modelled cells can raise.\<close>

datatype py_error = TypeError | KeyError string

text \<open>The parameter cell of the notebook.\<close>

record config =
  MAX_TEAM_SIZE :: int
  MIN_TEAM_SIZE :: int
  DS_SKILLED_THRESHOLD :: real
  PM_SKILLED_THRESHOLD :: real
  PROJECTS :: "string list"

definition notebook_config :: config where
  "notebook_config =
     \<lparr>MAX_TEAM_SIZE = 5, MIN_TEAM_SIZE = 3,
      DS_SKILLED_THRESHOLD = 4, PM_SKILLED_THRESHOLD = 5 / 2,
      PROJECTS = [''Helvetas'', ''Rega'', ''GIZ I'', ''GIZ II'', ''MSF'', ''IMPACT'']\<rparr>"

text \<open>
  One row of the table read from \<^verbatim>\<open>matching_input.xlsx\<close>. The score of a project is looked up by the
  project's name (\<^verbatim>\<open>students.iloc[i][project]\<close>), so the project columns are a map
  from column names to numbers; a name that is no column raises KeyError. Project
  scores are numeric in this model.
\<close>

record student =
  ID :: int
  ds_skill :: cell
  pm_skill :: cell
  nationality :: cell
  gender :: cell
  preference :: "string \<rightharpoonup> real"

text \<open>The row after the data preparation cell, with the three flag columns.\<close>

record prepared = student +
  data_science_skilled :: int
  project_management_skilled :: int
  is_male :: int

text \<open>The row that is written out, with the column \<^verbatim>\<open>assigned_project\<close>.\<close>

record output_row = prepared +
  assigned_project :: string

section \<open>Data preparation\<close>

text \<open>
  \<^verbatim>\<open>students['ds_skill'] >= DS_SKILLED_THRESHOLD\<close> compares a whole column. NaN compares
  false with every number, and comparing text that is still text in the table with a
  number raises TypeError.
\<close>

fun ge_cell :: "cell \<Rightarrow> real \<Rightarrow> py_error + bool" where
  "ge_cell (Num a) t = Inr (t \<le> a)"
| "ge_cell Missing t = Inr False"
| "ge_cell (Text s) t = Inl TypeError"

fun column_ge :: "cell list \<Rightarrow> real \<Rightarrow> py_error + bool list" where
  "column_ge [] t = Inr []"
| "column_ge (c # cs) t =
     (case ge_cell c t of
        Inl e \<Rightarrow> Inl e
      | Inr b \<Rightarrow> (case column_ge cs t of Inl e \<Rightarrow> Inl e | Inr bs \<Rightarrow> Inr (b # bs)))"

text \<open>\<^verbatim>\<open>students['gender'] == 'Male'\<close>: equality never raises.\<close>

definition eq_cell :: "cell \<Rightarrow> string \<Rightarrow> bool" where
  "eq_cell c s = (c = Text s)"

text \<open>A flag column starts as 0 and is set to 1 where the mask holds.\<close>

definition flag :: "bool \<Rightarrow> int" where
  "flag b = (if b then 1 else 0)"

definition add_flags :: "student \<Rightarrow> bool \<Rightarrow> bool \<Rightarrow> prepared" where
  "add_flags r d p =
     \<lparr>ID = ID r, ds_skill = ds_skill r, pm_skill = pm_skill r,
      nationality = nationality r, gender = gender r, preference = preference r,
      data_science_skilled = flag d,
      project_management_skilled = flag p,
      is_male = flag (eq_cell (gender r) ''Male'')\<rparr>"

definition data_preparation :: "config \<Rightarrow> student list \<Rightarrow> py_error + prepared list" where
  "data_preparation cfg students =
     (case column_ge (map ds_skill students) (DS_SKILLED_THRESHOLD cfg) of
        Inl e \<Rightarrow> Inl e
      | Inr ds \<Rightarrow>
          (case column_ge (map pm_skill students) (PM_SKILLED_THRESHOLD cfg) of
             Inl e \<Rightarrow> Inl e
           | Inr pm \<Rightarrow>
               Inr (map (\<lambda>i. add_flags (students ! i) (ds ! i) (pm ! i))
                      [0 ..< length students])))"

section \<open>The mixed integer program\<close>

text \<open>
  The variables are the entries of the dictionaries \<^verbatim>\<open>x\<close> and
  \<^verbatim>\<open>gender_diversity\<close>: \<open>X i p\<close> is \<^verbatim>\<open>x[i][p]\<close> and \<open>GD p\<close> is
  \<^verbatim>\<open>gender_diversity[p]\<close>. Were a project name repeated in the list, the dictionary
  would keep the variable added last, and the earlier one would occur in no expression.
\<close>

datatype var = X nat string | GD string

datatype var_type = BINARY | CONTINUOUS

text \<open>
  A linear expression of the \<^verbatim>\<open>mip\<close> package: terms, a constant and a sense. The
  sense is empty for a plain expression; a comparison \<^verbatim>\<open>a >= b\<close> builds the
  expression \<^verbatim>\<open>a - b\<close> with sense \<open>GE\<close>, read as \<open>a - b \<ge> 0\<close>. The package adds
  up the coefficients of a repeated variable and leaves out a term whose coefficient
  is 0; here every written term is kept, which evaluates to the same number.
\<close>

datatype sense = NoSense | EQ | LE | GE

record LinExpr =
  expr :: "(var \<times> real) list"
  const :: real
  sense :: sense

definition var_expr :: "var \<Rightarrow> LinExpr" where
  "var_expr v = \<lparr>expr = [(v, 1)], const = 0, sense = NoSense\<rparr>"

definition num_expr :: "real \<Rightarrow> LinExpr" where
  "num_expr c = \<lparr>expr = [], const = c, sense = NoSense\<rparr>"

definition scale :: "real \<Rightarrow> LinExpr \<Rightarrow> LinExpr" where
  "scale c e = \<lparr>expr = map (\<lambda>(v, a). (v, c * a)) (expr e), const = c * const e, sense = sense e\<rparr>"

definition add_expr :: "LinExpr \<Rightarrow> LinExpr \<Rightarrow> LinExpr" where
  "add_expr a b = \<lparr>expr = expr a @ expr b, const = const a + const b, sense = sense a\<rparr>"

definition neg_expr :: "LinExpr \<Rightarrow> LinExpr" where
  "neg_expr a = scale (- 1) a"

definition sub_expr :: "LinExpr \<Rightarrow> LinExpr \<Rightarrow> LinExpr" where
  "sub_expr a b = add_expr a (neg_expr b)"

definition xsum :: "LinExpr list \<Rightarrow> LinExpr" where
  "xsum es = foldl add_expr (num_expr 0) es"

definition compare :: "sense \<Rightarrow> LinExpr \<Rightarrow> LinExpr \<Rightarrow> LinExpr" where
  "compare s a b = (sub_expr a b)\<lparr>sense := s\<rparr>"

text \<open>The value of an expression under an assignment of numbers to the variables.\<close>

definition eval :: "(var \<Rightarrow> real) \<Rightarrow> LinExpr \<Rightarrow> real" where
  "eval v e = (\<Sum>(y, a) \<leftarrow> expr e. a * v y) + const e"

definition holds :: "(var \<Rightarrow> real) \<Rightarrow> LinExpr \<Rightarrow> bool" where
  "holds v e =
     (case sense e of
        NoSense \<Rightarrow> True
      | EQ \<Rightarrow> eval v e = 0
      | LE \<Rightarrow> eval v e \<le> 0
      | GE \<Rightarrow> eval v e \<ge> 0)"

definition mentions :: "LinExpr \<Rightarrow> var \<Rightarrow> bool" where
  "mentions e y = (y \<in> fst ` set (expr e))"

datatype opt_sense = MINIMIZE | MAXIMIZE

text \<open>A declared variable: the variable, its lower bound and its type.\<close>

type_synonym var_decl = "var \<times> real \<times> var_type"

record Model =
  model_sense :: opt_sense
  vars :: "var_decl list"
  constrs :: "LinExpr list"
  objective :: LinExpr

definition new_Model :: "opt_sense \<Rightarrow> Model" where
  "new_Model s = \<lparr>model_sense = s, vars = [], constrs = [], objective = num_expr 0\<rparr>"

definition add_var :: "Model \<Rightarrow> var \<Rightarrow> real \<Rightarrow> var_type \<Rightarrow> Model" where
  "add_var m y lb t = m\<lparr>vars := vars m @ [(y, lb, t)]\<rparr>"

text \<open>
  \<^verbatim>\<open>m += e\<close>: an expression with a sense is added as a constraint, an expression
  without one becomes the objective.
\<close>

definition model_iadd :: "Model \<Rightarrow> LinExpr \<Rightarrow> Model" where
  "model_iadd m e =
     (if sense e = NoSense then m\<lparr>objective := e\<rparr> else m\<lparr>constrs := constrs m @ [e]\<rparr>)"

text \<open>What it means to solve the program.\<close>

definition var_ok :: "(var \<Rightarrow> real) \<Rightarrow> var_decl \<Rightarrow> bool" where
  "var_ok v d =
     (case d of (y, lb, t) \<Rightarrow>
        (case t of BINARY \<Rightarrow> v y = 0 \<or> v y = 1 | CONTINUOUS \<Rightarrow> lb \<le> v y))"

definition feasible :: "Model \<Rightarrow> (var \<Rightarrow> real) \<Rightarrow> bool" where
  "feasible m v = (list_all (var_ok v) (vars m) \<and> list_all (holds v) (constrs m))"

definition better :: "opt_sense \<Rightarrow> real \<Rightarrow> real \<Rightarrow> bool" where
  "better s a b = (case s of MINIMIZE \<Rightarrow> a \<le> b | MAXIMIZE \<Rightarrow> b \<le> a)"

definition optimal :: "Model \<Rightarrow> (var \<Rightarrow> real) \<Rightarrow> bool" where
  "optimal m v =
     (feasible m v \<and>
      (\<forall>w. feasible m w \<longrightarrow> better (model_sense m) (eval v (objective m)) (eval w (objective m))))"

section \<open>Building the model\<close>

text \<open>The cell that declares the decision variables.\<close>

definition declare_x_row :: "config \<Rightarrow> Model \<Rightarrow> nat \<Rightarrow> Model" where
  "declare_x_row cfg m i = foldl (\<lambda>m p. add_var m (X i p) 0 BINARY) m (PROJECTS cfg)"

definition declare_decision_variables :: "config \<Rightarrow> nat \<Rightarrow> Model \<Rightarrow> Model" where
  "declare_decision_variables cfg number_students m =
     foldl (\<lambda>m project. add_var m (GD project) 0 CONTINUOUS)
       (foldl (declare_x_row cfg) m [0 ..< number_students])
       (PROJECTS cfg)"

text \<open>The cell that imposes the strict requirements.\<close>

definition one_project :: "config \<Rightarrow> nat \<Rightarrow> LinExpr" where
  "one_project cfg i =
     compare EQ (xsum (map (\<lambda>project. var_expr (X i project)) (PROJECTS cfg))) (num_expr 1)"

definition team_size :: "nat \<Rightarrow> string \<Rightarrow> LinExpr" where
  "team_size number_students project =
     xsum (map (\<lambda>i. var_expr (X i project)) [0 ..< number_students])"

definition skilled_count :: "(prepared \<Rightarrow> int) \<Rightarrow> prepared list \<Rightarrow> string \<Rightarrow> LinExpr" where
  "skilled_count col students project =
     xsum (map (\<lambda>i. scale (of_int (col (students ! i))) (var_expr (X i project)))
             [0 ..< length students])"

definition project_requirements :: "config \<Rightarrow> prepared list \<Rightarrow> Model \<Rightarrow> string \<Rightarrow> Model" where
  "project_requirements cfg students m project =
     model_iadd
       (model_iadd
          (model_iadd
             (model_iadd m
                (compare GE (team_size (length students) project)
                   (num_expr (of_int (MIN_TEAM_SIZE cfg)))))
             (compare LE (team_size (length students) project)
                (num_expr (of_int (MAX_TEAM_SIZE cfg)))))
          (compare GE (skilled_count data_science_skilled students project) (num_expr 1)))
       (compare GE (skilled_count project_management_skilled students project) (num_expr 1))"

definition impose_strict_requirements :: "config \<Rightarrow> prepared list \<Rightarrow> Model \<Rightarrow> Model" where
  "impose_strict_requirements cfg students m =
     foldl (project_requirements cfg students)
       (foldl (\<lambda>m i. model_iadd m (one_project cfg i)) m [0 ..< length students])
       (PROJECTS cfg)"

text \<open>
  The cell that imposes the objective. Reading a project's score raises KeyError
  when the project is no column of the table; the first failing read stops the cell.
\<close>

fun sequence :: "(py_error + 'a) list \<Rightarrow> py_error + 'a list" where
  "sequence [] = Inr []"
| "sequence (r # rs) =
     (case r of
        Inl e \<Rightarrow> Inl e
      | Inr a \<Rightarrow> (case sequence rs of Inl e \<Rightarrow> Inl e | Inr as \<Rightarrow> Inr (a # as)))"

definition priority_term :: "prepared list \<Rightarrow> nat \<Rightarrow> string \<Rightarrow> py_error + LinExpr" where
  "priority_term students i project =
     (case preference (students ! i) project of
        None \<Rightarrow> Inl (KeyError project)
      | Some c \<Rightarrow> Inr (scale c (var_expr (X i project))))"

definition priority_terms :: "config \<Rightarrow> prepared list \<Rightarrow> py_error + LinExpr list" where
  "priority_terms cfg students =
     sequence (concat (map (\<lambda>i. map (priority_term students i) (PROJECTS cfg))
                         [0 ..< length students]))"

definition number_of_males :: "prepared list \<Rightarrow> string \<Rightarrow> LinExpr" where
  "number_of_males students project =
     xsum (map (\<lambda>i. scale (of_int (is_male (students ! i))) (var_expr (X i project)))
             [0 ..< length students])"

definition number_of_females :: "prepared list \<Rightarrow> string \<Rightarrow> LinExpr" where
  "number_of_females students project =
     xsum (map (\<lambda>i. scale (of_int (1 - is_male (students ! i))) (var_expr (X i project)))
             [0 ..< length students])"

text \<open>
  The two comparisons in the body of the gender loop. Each is an expression statement:
  the comparison builds a constraint object and the statement drops it. Nothing is
  added to the model.
\<close>

definition gender_statements :: "prepared list \<Rightarrow> string \<Rightarrow> LinExpr list" where
  "gender_statements students project =
     [compare GE (var_expr (GD project))
        (sub_expr (number_of_males students project) (number_of_females students project)),
      compare GE (var_expr (GD project))
        (add_expr (neg_expr (number_of_males students project))
           (number_of_females students project))]"

definition gender_diversity_objective_function :: "config \<Rightarrow> LinExpr" where
  "gender_diversity_objective_function cfg =
     xsum (map (\<lambda>project. var_expr (GD project)) (PROJECTS cfg))"

definition impose_objective_function :: "config \<Rightarrow> prepared list \<Rightarrow> Model \<Rightarrow> py_error + Model" where
  "impose_objective_function cfg students m =
     (case priority_terms cfg students of
        Inl e \<Rightarrow> Inl e
      | Inr ts \<Rightarrow>
          (let priority_objective_function = xsum ts;
               dropped = concat (map (gender_statements students) (PROJECTS cfg))
           in Inr (model_iadd m
                     (add_expr priority_objective_function
                        (gender_diversity_objective_function cfg)))))"

definition build_model :: "config \<Rightarrow> prepared list \<Rightarrow> py_error + Model" where
  "build_model cfg students =
     impose_objective_function cfg students
       (impose_strict_requirements cfg students
          (declare_decision_variables cfg (length students) (new_Model MINIMIZE)))"

section \<open>Solving and writing the output\<close>

text \<open>
  The solver is outside the notebook. What the notebook sees of it is the status that
  \<^verbatim>\<open>m.optimize()\<close> returns and the value \<^verbatim>\<open>.x\<close> of each variable, which is a
  number or \<^verbatim>\<open>None\<close>.
\<close>

datatype OptimizationStatus =
  ERROR | OPTIMAL | INFEASIBLE | UNBOUNDED | FEASIBLE | INT_INFEASIBLE
  | NO_SOLUTION_FOUND | LOADED | CUTOFF | OTHER

record solve_result =
  status :: OptimizationStatus
  x_val :: "var \<Rightarrow> real option"

text \<open>
  The inner loop of the output cell: every project whose variable compares equal to 1
  overwrites the column, so the last one in the list stays.
\<close>

fun assign_loop :: "(var \<Rightarrow> real option) \<Rightarrow> nat \<Rightarrow> string list \<Rightarrow> string \<Rightarrow> string" where
  "assign_loop xs i [] a = a"
| "assign_loop xs i (project # ps) a =
     assign_loop xs i ps (if xs (X i project) = Some 1 then project else a)"

definition add_assigned :: "prepared \<Rightarrow> string \<Rightarrow> output_row" where
  "add_assigned r a =
     \<lparr>ID = ID r, ds_skill = ds_skill r, pm_skill = pm_skill r,
      nationality = nationality r, gender = gender r, preference = preference r,
      data_science_skilled = data_science_skilled r,
      project_management_skilled = project_management_skilled r,
      is_male = is_male r,
      assigned_project = a\<rparr>"

definition write_output :: "config \<Rightarrow> prepared list \<Rightarrow> (var \<Rightarrow> real option) \<Rightarrow> output_row list" where
  "write_output cfg students xs =
     map (\<lambda>i. add_assigned (students ! i) (assign_loop xs i (PROJECTS cfg) ''''))
       [0 ..< length students]"

text \<open>
  The notebook from top to bottom. An exception in a cell stops the run; otherwise
  the run ends with the status shown by the solve cell and the table written to
  \<^verbatim>\<open>matching_output.xlsx\<close>.
\<close>

definition run_notebook ::
  "config \<Rightarrow> student list \<Rightarrow> (Model \<Rightarrow> solve_result) \<Rightarrow> py_error + (OptimizationStatus \<times> output_row list)" where
  "run_notebook cfg students solver =
     (case data_preparation cfg students of
        Inl e \<Rightarrow> Inl e
      | Inr prepared \<Rightarrow>
          (case build_model cfg prepared of
             Inl e \<Rightarrow> Inl e
           | Inr m \<Rightarrow>
               (let r = solver m
                in Inr (status r, write_output cfg prepared (x_val r)))))"

section \<open>Quantities and predicates used to state the properties\<close>

text \<open>The four constraints that one pass of the project loop adds.\<close>

definition requirements_of :: "config \<Rightarrow> prepared list \<Rightarrow> string \<Rightarrow> LinExpr list" where
  "requirements_of cfg students project =
     [compare GE (team_size (length students) project) (num_expr (of_int (MIN_TEAM_SIZE cfg))),
      compare LE (team_size (length students) project) (num_expr (of_int (MAX_TEAM_SIZE cfg))),
      compare GE (skilled_count data_science_skilled students project) (num_expr 1),
      compare GE (skilled_count project_management_skilled students project) (num_expr 1)]"

text \<open>The score that student \<open>i\<close> gave to a project, once the read has succeeded.\<close>

definition preference_rank :: "prepared list \<Rightarrow> nat \<Rightarrow> string \<Rightarrow> real" where
  "preference_rank students i project = the (preference (students ! i) project)"

text \<open>The two parts of the objective as numbers, under an assignment of the variables.\<close>

definition priority_value :: "config \<Rightarrow> prepared list \<Rightarrow> (var \<Rightarrow> real) \<Rightarrow> real" where
  "priority_value cfg students v =
     (\<Sum>i \<leftarrow> [0 ..< length students]. \<Sum>project \<leftarrow> PROJECTS cfg.
        preference_rank students i project * v (X i project))"

definition diversity_value :: "config \<Rightarrow> (var \<Rightarrow> real) \<Rightarrow> real" where
  "diversity_value cfg v = (\<Sum>project \<leftarrow> PROJECTS cfg. v (GD project))"

text \<open>The head counts of a project under an assignment of the variables.\<close>

definition male_count :: "prepared list \<Rightarrow> (var \<Rightarrow> real) \<Rightarrow> string \<Rightarrow> real" where
  "male_count students v project =
     (\<Sum>i \<leftarrow> [0 ..< length students]. v (X i project) * of_int (is_male (students ! i)))"

definition female_count :: "prepared list \<Rightarrow> (var \<Rightarrow> real) \<Rightarrow> string \<Rightarrow> real" where
  "female_count students v project =
     (\<Sum>i \<leftarrow> [0 ..< length students]. v (X i project) * of_int (1 - is_male (students ! i)))"


fun is_text :: "cell \<Rightarrow> bool" where
  "is_text (Text s) = True"
| "is_text c = False"

text \<open>
  The invariants that the specification asks of a written table: every student has a
  project of the list, and every project has a member with each skill flag. These two
  predicates follow the specification's words; no line of the notebook evaluates them.
\<close>

definition total_assignment :: "config \<Rightarrow> output_row list \<Rightarrow> bool" where
  "total_assignment cfg out = list_all (\<lambda>r. assigned_project r \<in> set (PROJECTS cfg)) out"

definition skill_coverage :: "config \<Rightarrow> output_row list \<Rightarrow> bool" where
  "skill_coverage cfg out =
     list_all (\<lambda>project.
         list_ex (\<lambda>r. assigned_project r = project \<and> data_science_skilled r = 1) out \<and>
         list_ex (\<lambda>r. assigned_project r = project \<and> project_management_skilled r = 1) out)
       (PROJECTS cfg)"

text \<open>
  What a run leaves behind: the status shown by the solve cell and the column
  \<^verbatim>\<open>assigned_project\<close> of the written file, or nothing when a cell raised.
\<close>

definition written_assignment ::
  "py_error + (OptimizationStatus \<times> output_row list) \<Rightarrow> (OptimizationStatus \<times> string list) option" where
  "written_assignment r =
     (case r of Inl e \<Rightarrow> None | Inr (s, out) \<Rightarrow> Some (s, map assigned_project out))"

section \<open>Sample inputs\<close>

text \<open>The three rows that the notebook displays after the data preparation cell.\<close>

definition student_16 :: student where
  "student_16 =
     \<lparr>ID = 16, ds_skill = Num (4666667 / 1000000), pm_skill = Num 3,
      nationality = Text ''French'', gender = Text ''Male'',
      preference = map_of [(''Helvetas'', 3), (''Rega'', 4), (''GIZ I'', 3),
                           (''GIZ II'', 4), (''MSF'', 6), (''IMPACT'', 5)]\<rparr>"

definition student_38 :: student where
  "student_38 =
     \<lparr>ID = 38, ds_skill = Num (17 / 4), pm_skill = Num (11 / 4),
      nationality = Text ''Indian'', gender = Text ''Male'',
      preference = map_of [(''Helvetas'', 1), (''Rega'', 5), (''GIZ I'', 6),
                           (''GIZ II'', 3), (''MSF'', 4), (''IMPACT'', 2)]\<rparr>"

definition student_27 :: student where
  "student_27 =
     \<lparr>ID = 27, ds_skill = Num (4333333 / 1000000), pm_skill = Num 3,
      nationality = Text ''Italy'', gender = Text ''Male'',
      preference = map_of [(''Helvetas'', 3), (''Rega'', 1), (''GIZ I'', 3),
                           (''GIZ II'', 3), (''MSF'', 1), (''IMPACT'', 2)]\<rparr>"

text \<open>
  Further rows: a score exactly at the data science threshold, a score one below it,
  and a row whose data science score is empty.
\<close>

definition student_at_threshold :: student where
  "student_at_threshold =
     \<lparr>ID = 1, ds_skill = Num 4, pm_skill = Num (5 / 2),
      nationality = Text ''Swiss'', gender = Text ''Female'',
      preference = map_of [(''Helvetas'', 2), (''Rega'', 1)]\<rparr>"

definition student_below_threshold :: student where
  "student_below_threshold =
     \<lparr>ID = 2, ds_skill = Num 3, pm_skill = Num (3 / 2),
      nationality = Text ''Swiss'', gender = Text ''male'',
      preference = map_of [(''Helvetas'', 1), (''Rega'', 2)]\<rparr>"


definition three_students :: "student list" where
  "three_students = [student_16, student_38, student_27]"

definition four_students :: "student list" where
  "four_students = [student_16, student_38, student_27, student_at_threshold]"

definition one_project_config :: config where
  "one_project_config = notebook_config\<lparr>PROJECTS := [''Helvetas'']\<rparr>"

definition two_project_config :: config where
  "two_project_config = notebook_config\<lparr>PROJECTS := [''Helvetas'', ''Rega'']\<rparr>"

text \<open>Everybody in the team of every project, every diversity variable at 0.\<close>

fun all_in :: "var \<Rightarrow> real" where
  "all_in (X i p) = 1"
| "all_in (GD p) = 0"

text \<open>Solver results used below.\<close>

definition solved :: "(var \<Rightarrow> real) \<Rightarrow> Model \<Rightarrow> solve_result" where
  "solved v m = \<lparr>status = OPTIMAL, x_val = (\<lambda>y. Some (v y))\<rparr>"

definition no_solution :: "OptimizationStatus \<Rightarrow> Model \<Rightarrow> solve_result" where
  "no_solution s m = \<lparr>status = s, x_val = (\<lambda>y. None)\<rparr>"

fun almost_one :: "var \<Rightarrow> real" where
  "almost_one (X i p) = (if i = 0 then 9999997 / 10000000 else 1)"
| "almost_one (GD p) = 0"

fun all_to_Helvetas :: "var \<Rightarrow> real" where
  "all_to_Helvetas (X i p) = (if p = ''Helvetas'' then 1 else 0)"
| "all_to_Helvetas (GD p) = 0"

section \<open>The model that a successful build returns\<close>

text \<open>
  The variables, constraints and objective that the cells leave in the model, written
  as lists. The lemmas below show that \<open>build_model\<close> returns exactly this model
  whenever every score can be read.
\<close>

definition built_vars :: "config \<Rightarrow> nat \<Rightarrow> var_decl list" where
  "built_vars cfg n =
     concat (map (\<lambda>i. map (\<lambda>p. (X i p, 0, BINARY)) (PROJECTS cfg)) [0 ..< n])
       @ map (\<lambda>p. (GD p, 0, CONTINUOUS)) (PROJECTS cfg)"

definition built_constrs :: "config \<Rightarrow> prepared list \<Rightarrow> LinExpr list" where
  "built_constrs cfg students =
     map (one_project cfg) [0 ..< length students]
       @ concat (map (requirements_of cfg students) (PROJECTS cfg))"

definition built_objective :: "config \<Rightarrow> prepared list \<Rightarrow> LinExpr" where
  "built_objective cfg students =
     add_expr
       (xsum (concat (map (\<lambda>i. map (\<lambda>p. scale (preference_rank students i p) (var_expr (X i p)))
                 (PROJECTS cfg)) [0 ..< length students])))
       (gender_diversity_objective_function cfg)"

definition built_model :: "config \<Rightarrow> prepared list \<Rightarrow> Model" where
  "built_model cfg students =
     \<lparr>model_sense = MINIMIZE, vars = built_vars cfg (length students),
      constrs = built_constrs cfg students,
      objective = built_objective cfg students\<rparr>"

text \<open>The three displayed rows with their flag columns.\<close>

definition three_prepared :: "prepared list" where
  "three_prepared =
     [add_flags student_16 True True, add_flags student_38 True True,
      add_flags student_27 True True]"

text \<open>Further sample rows, tables and solver results.\<close>

definition four_prepared :: "prepared list" where
  "four_prepared =
     [add_flags student_16 True True, add_flags student_38 True True,
      add_flags student_27 True True, add_flags student_at_threshold True True]"

definition boundary_students :: "student list" where
  "boundary_students = [student_at_threshold, student_below_threshold, student_16]"

fun half :: "var \<Rightarrow> real" where
  "half (X i p) = 1 / 2"
| "half (GD p) = 0"

section \<open>Linear expressions\<close>

lemma eval_var_expr: "eval v (var_expr y) = v y"
  by (simp add: eval_def var_expr_def)

lemma eval_num_expr: "eval v (num_expr c) = c"
  by (simp add: eval_def num_expr_def)

lemma sum_list_scale_terms:
  "(\<Sum>(y, a) \<leftarrow> map (\<lambda>(y, a). (y, c * a)) ts. a * v y) = c * (\<Sum>(y, a) \<leftarrow> ts. a * (v y :: real))"
  by (induction ts) (auto simp: algebra_simps)

lemma eval_scale: "eval v (scale c e) = c * eval v e"
  unfolding eval_def scale_def by (simp add: sum_list_scale_terms distrib_left del: map_map)

lemma eval_add_expr: "eval v (add_expr a b) = eval v a + eval v b"
  by (simp add: eval_def add_expr_def)

lemma eval_neg_expr: "eval v (neg_expr a) = - eval v a"
  by (simp add: neg_expr_def eval_scale)

lemma eval_sub_expr: "eval v (sub_expr a b) = eval v a - eval v b"
  by (simp add: sub_expr_def eval_add_expr eval_neg_expr)

lemma eval_foldl_add_expr:
  "eval v (foldl add_expr a es) = eval v a + sum_list (map (eval v) es)"
  by (induction es arbitrary: a) (simp_all add: eval_add_expr)

lemma eval_xsum: "eval v (xsum es) = sum_list (map (eval v) es)"
  by (simp add: xsum_def eval_foldl_add_expr eval_num_expr)

lemma eval_sense_update: "eval v (e\<lparr>sense := s\<rparr>) = eval v e"
  by (simp add: eval_def)

lemma eval_compare: "eval v (compare s a b) = eval v a - eval v b"
  by (simp add: compare_def eval_sense_update eval_sub_expr)

lemma sense_compare: "sense (compare s a b) = s"
  by (simp add: compare_def)

lemma holds_compare_EQ: "holds v (compare EQ a b) = (eval v a = eval v b)"
  by (simp add: holds_def sense_compare eval_compare)

lemma holds_compare_GE: "holds v (compare GE a b) = (eval v b \<le> eval v a)"
  by (simp add: holds_def sense_compare eval_compare)

lemma holds_compare_LE: "holds v (compare LE a b) = (eval v a \<le> eval v b)"
  by (simp add: holds_def sense_compare eval_compare)

lemma expr_foldl_add_expr:
  "expr (foldl add_expr a es) = expr a @ concat (map expr es)"
  by (induction es arbitrary: a) (simp_all add: add_expr_def)

lemma expr_xsum: "expr (xsum es) = concat (map expr es)"
  by (simp add: xsum_def expr_foldl_add_expr num_expr_def)

lemma sense_foldl_add_expr: "sense (foldl add_expr a es) = sense a"
  by (induction es arbitrary: a) (simp_all add: add_expr_def)

lemma sense_xsum: "sense (xsum es) = NoSense"
  by (simp add: xsum_def sense_foldl_add_expr num_expr_def)

lemma const_foldl_add_expr: "const (foldl add_expr a es) = const a + sum_list (map const es)"
  by (induction es arbitrary: a) (simp_all add: add_expr_def)

subsection \<open>What each cell does to the model\<close>

lemma model_iadd_constr:
  "sense e \<noteq> NoSense \<Longrightarrow> model_iadd m e = m\<lparr>constrs := constrs m @ [e]\<rparr>"
  by (simp add: model_iadd_def)

lemma foldl_iadd_constrs:
  "(\<And>i. sense (f i) \<noteq> NoSense) \<Longrightarrow>
   foldl (\<lambda>m i. model_iadd m (f i)) m xs = m\<lparr>constrs := constrs m @ map f xs\<rparr>"
  by (induction xs arbitrary: m) (simp_all add: model_iadd_constr)

lemma project_requirements_eq:
  "project_requirements cfg students m project =
     m\<lparr>constrs := constrs m @ requirements_of cfg students project\<rparr>"
  by (simp add: project_requirements_def requirements_of_def model_iadd_constr sense_compare)

lemma foldl_project_requirements:
  "foldl (project_requirements cfg students) m ps =
     m\<lparr>constrs := constrs m @ concat (map (requirements_of cfg students) ps)\<rparr>"
  by (induction ps arbitrary: m) (simp_all add: project_requirements_eq)

lemma impose_strict_requirements_eq:
  "impose_strict_requirements cfg students m =
     m\<lparr>constrs := constrs m @ map (one_project cfg) [0 ..< length students]
          @ concat (map (requirements_of cfg students) (PROJECTS cfg))\<rparr>"
  by (simp add: impose_strict_requirements_def foldl_project_requirements
      foldl_iadd_constrs one_project_def sense_compare)

lemma foldl_add_var:
  "foldl (\<lambda>m p. add_var m (f p) lb t) m ps = m\<lparr>vars := vars m @ map (\<lambda>p. (f p, lb, t)) ps\<rparr>"
  by (induction ps arbitrary: m) (simp_all add: add_var_def)

lemma foldl_declare_x_row:
  "foldl (declare_x_row cfg) m is =
     m\<lparr>vars := vars m @ concat (map (\<lambda>i. map (\<lambda>p. (X i p, 0, BINARY)) (PROJECTS cfg)) is)\<rparr>"
  by (induction "is" arbitrary: m) (simp_all add: declare_x_row_def foldl_add_var)

lemma declare_decision_variables_eq:
  "declare_decision_variables cfg n m =
     m\<lparr>vars := vars m @ concat (map (\<lambda>i. map (\<lambda>p. (X i p, 0, BINARY)) (PROJECTS cfg)) [0 ..< n])
          @ map (\<lambda>p. (GD p, 0, CONTINUOUS)) (PROJECTS cfg)\<rparr>"
  by (simp add: declare_decision_variables_def foldl_declare_x_row foldl_add_var)

lemma sequence_map_Inr: "sequence (map Inr as) = Inr as"
  by (induction as) simp_all

lemma sequence_Inr: "sequence rs = Inr as \<Longrightarrow> rs = map Inr as"
  by (induction rs arbitrary: as) (auto split: sum.splits)

subsection \<open>The built model\<close>

lemma priority_term_Inr:
  "priority_term students i p = Inr t \<Longrightarrow>
     preference (students ! i) p \<noteq> None \<and>
     t = scale (preference_rank students i p) (var_expr (X i p))"
  by (auto simp: priority_term_def preference_rank_def split: option.splits)

lemma priority_row_Inr:
  "map (priority_term students i) ps = map Inr ts \<Longrightarrow>
     ts = map (\<lambda>p. scale (preference_rank students i p) (var_expr (X i p))) ps \<and>
     (\<forall>p \<in> set ps. preference (students ! i) p \<noteq> None)"
proof (induction ps arbitrary: ts)
  case Nil
  then show ?case by simp
next
  case (Cons p ps)
  then obtain t ts' where ts: "ts = t # ts'" by (cases ts) auto
  with Cons.prems have h: "priority_term students i p = Inr t"
    and r: "map (priority_term students i) ps = map Inr ts'" by auto
  from Cons.IH [OF r] priority_term_Inr [OF h] ts show ?case by simp
qed

lemma concat_rows_Inr:
  "concat (map (\<lambda>i. map (priority_term students i) ps) is) = map Inr ts \<Longrightarrow>
     ts = concat (map (\<lambda>i. map (\<lambda>p. scale (preference_rank students i p) (var_expr (X i p))) ps) is) \<and>
     (\<forall>i \<in> set is. \<forall>p \<in> set ps. preference (students ! i) p \<noteq> None)"
proof (induction "is" arbitrary: ts)
  case Nil
  then show ?case by simp
next
  case (Cons i "is")
  let ?n = "length ps"
  from Cons.prems have e: "map (priority_term students i) ps @
      concat (map (\<lambda>i. map (priority_term students i) ps) is) = map Inr (take ?n ts) @ map Inr (drop ?n ts)"
    by (simp flip: map_append)
  have l: "length (map (priority_term students i) ps) = length (map Inr (take ?n ts) :: (py_error + LinExpr) list)"
  proof -
    from Cons.prems have "length (map Inr ts :: (py_error + LinExpr) list) \<ge> ?n"
      by (metis length_map length_append le_add1 concat.simps(2) list.simps(9))
    then show ?thesis by simp
  qed
  from e l have a: "map (priority_term students i) ps = map Inr (take ?n ts)"
    and b: "concat (map (\<lambda>i. map (priority_term students i) ps) is) = map Inr (drop ?n ts)"
    by (metis append_eq_append_conv)+
  from priority_row_Inr [OF a] Cons.IH [OF b]
  have "take ?n ts @ drop ?n ts =
      concat (map (\<lambda>i. map (\<lambda>p. scale (preference_rank students i p) (var_expr (X i p))) ps) (i # is))"
    and "\<forall>i \<in> set (i # is). \<forall>p \<in> set ps. preference (students ! i) p \<noteq> None"
    by auto
  then show ?case by simp
qed

lemma priority_terms_Inr:
  assumes "priority_terms cfg students = Inr ts"
  shows "ts = concat (map (\<lambda>i. map (\<lambda>p. scale (preference_rank students i p) (var_expr (X i p)))
                 (PROJECTS cfg)) [0 ..< length students])"
    and "\<forall>i < length students. \<forall>p \<in> set (PROJECTS cfg). preference (students ! i) p \<noteq> None"
  using concat_rows_Inr [OF sequence_Inr [OF assms [unfolded priority_terms_def]]]
  by auto

lemma sense_built_objective: "sense (built_objective cfg students) = NoSense"
  by (simp add: built_objective_def add_expr_def sense_xsum)

lemma build_model_Inr:
  assumes "build_model cfg students = Inr m"
  shows "m = \<lparr>model_sense = MINIMIZE, vars = built_vars cfg (length students),
              constrs = built_constrs cfg students,
              objective = built_objective cfg students\<rparr>"
    and "\<forall>i < length students. \<forall>p \<in> set (PROJECTS cfg). preference (students ! i) p \<noteq> None"
proof -
  from assms obtain ts where ts: "priority_terms cfg students = Inr ts"
    by (auto simp: build_model_def impose_objective_function_def split: sum.splits)
  note pt = priority_terms_Inr [OF ts]
  from pt(2) show "\<forall>i < length students. \<forall>p \<in> set (PROJECTS cfg). preference (students ! i) p \<noteq> None" .
  have s: "sense (add_expr (xsum ts) (gender_diversity_objective_function cfg)) = NoSense"
    by (simp add: add_expr_def sense_xsum)
  from assms ts have "m = model_iadd (impose_strict_requirements cfg students
          (declare_decision_variables cfg (length students) (new_Model MINIMIZE)))
        (add_expr (xsum ts) (gender_diversity_objective_function cfg))"
    by (simp add: build_model_def impose_objective_function_def Let_def)
  then show "m = \<lparr>model_sense = MINIMIZE, vars = built_vars cfg (length students),
              constrs = built_constrs cfg students,
              objective = built_objective cfg students\<rparr>"
    unfolding model_iadd_def s impose_strict_requirements_eq declare_decision_variables_eq
      built_objective_def pt(1) [symmetric]
    by (simp add: new_Model_def built_vars_def built_constrs_def)
qed

lemma concat_map_Inr: "concat (map (\<lambda>i. map Inr (f i)) is) = map Inr (concat (map f is))"
  by (induction "is") simp_all

lemma build_model_ok:
  assumes "\<forall>i < length students. \<forall>p \<in> set (PROJECTS cfg). preference (students ! i) p \<noteq> None"
  shows "build_model cfg students =
     Inr \<lparr>model_sense = MINIMIZE, vars = built_vars cfg (length students),
              constrs = built_constrs cfg students,
              objective = built_objective cfg students\<rparr>"
proof -
  have "\<And>i p. i < length students \<Longrightarrow> p \<in> set (PROJECTS cfg) \<Longrightarrow>
      priority_term students i p = Inr (scale (preference_rank students i p) (var_expr (X i p)))"
    using assms by (auto simp: priority_term_def preference_rank_def split: option.splits)
  then have row: "\<And>i. i < length students \<Longrightarrow> map (priority_term students i) (PROJECTS cfg)
      = map Inr (map (\<lambda>p. scale (preference_rank students i p) (var_expr (X i p))) (PROJECTS cfg))"
    by simp
  have "map (\<lambda>i. map (priority_term students i) (PROJECTS cfg)) [0 ..< length students]
      = map (\<lambda>i. map Inr (map (\<lambda>p. scale (preference_rank students i p) (var_expr (X i p))) (PROJECTS cfg)))
          [0 ..< length students]"
    by (rule map_cong) (simp_all add: row del: map_map)
  then have "concat (map (\<lambda>i. map (priority_term students i) (PROJECTS cfg)) [0 ..< length students])
      = map Inr (concat (map (\<lambda>i. map (\<lambda>p. scale (preference_rank students i p) (var_expr (X i p)))
                 (PROJECTS cfg)) [0 ..< length students]))"
    by (simp only: concat_map_Inr)
  then have "\<exists>ts. priority_terms cfg students = Inr ts"
    by (simp add: priority_terms_def sequence_map_Inr)
  then obtain m where "build_model cfg students = Inr m"
    by (auto simp: build_model_def impose_objective_function_def Let_def)
  with build_model_Inr(1) [OF this] show ?thesis by simp
qed

lemma eval_one_project:
  "eval v (xsum (map (\<lambda>p. var_expr (X i p)) ps)) = (\<Sum>p \<leftarrow> ps. v (X i p))"
  by (simp add: eval_xsum comp_def eval_var_expr)

lemma holds_one_project:
  "holds v (one_project cfg i) = ((\<Sum>p \<leftarrow> PROJECTS cfg. v (X i p)) = 1)"
  by (simp add: one_project_def holds_compare_EQ eval_one_project eval_num_expr)

lemma eval_team_size:
  "eval v (team_size n p) = (\<Sum>i \<leftarrow> [0 ..< n]. v (X i p))"
  by (simp add: team_size_def eval_xsum comp_def eval_var_expr)

lemma eval_skilled_count:
  "eval v (skilled_count col students p) =
     (\<Sum>i \<leftarrow> [0 ..< length students]. of_int (col (students ! i)) * v (X i p))"
  by (simp add: skilled_count_def eval_xsum comp_def eval_var_expr eval_scale)

lemma eval_number_of_males:
  "eval v (number_of_males students p) = male_count students v p"
  by (simp add: number_of_males_def male_count_def eval_xsum comp_def eval_var_expr eval_scale
      mult.commute)

lemma eval_number_of_females:
  "eval v (number_of_females students p) = female_count students v p"
  by (simp add: number_of_females_def female_count_def eval_xsum comp_def eval_var_expr
      eval_scale mult.commute)

lemma eval_concat_rows:
  "sum_list (map (eval v) (concat (map (\<lambda>i. map (f i) ps) is))) =
     (\<Sum>i \<leftarrow> is. \<Sum>p \<leftarrow> ps. eval v (f i p))"
  by (induction "is") (simp_all add: comp_def)

lemma eval_built_objective:
  "eval v (built_objective cfg students) =
     priority_value cfg students v + diversity_value cfg v"
  by (simp add: built_objective_def eval_add_expr eval_xsum eval_concat_rows eval_scale
      eval_var_expr priority_value_def diversity_value_def
      gender_diversity_objective_function_def comp_def)

lemma holds_requirements_of:
  "list_all (holds v) (requirements_of cfg students p) =
     (of_int (MIN_TEAM_SIZE cfg) \<le> (\<Sum>i \<leftarrow> [0 ..< length students]. v (X i p)) \<and>
      (\<Sum>i \<leftarrow> [0 ..< length students]. v (X i p)) \<le> of_int (MAX_TEAM_SIZE cfg) \<and>
      1 \<le> (\<Sum>i \<leftarrow> [0 ..< length students].
              of_int (data_science_skilled (students ! i)) * v (X i p)) \<and>
      1 \<le> (\<Sum>i \<leftarrow> [0 ..< length students].
              of_int (project_management_skilled (students ! i)) * v (X i p)))"
  by (simp add: requirements_of_def holds_compare_GE holds_compare_LE eval_team_size
      eval_skilled_count eval_num_expr)

lemma holds_built_constrs:
  "list_all (holds v) (built_constrs cfg students) =
     ((\<forall>i < length students. (\<Sum>p \<leftarrow> PROJECTS cfg. v (X i p)) = 1) \<and>
      (\<forall>p \<in> set (PROJECTS cfg). list_all (holds v) (requirements_of cfg students p)))"
  by (auto simp: built_constrs_def list_all_append list_all_iff holds_one_project ball_Un)

lemma ok_built_vars:
  "list_all (var_ok v) (built_vars cfg n) =
     ((\<forall>i < n. \<forall>p \<in> set (PROJECTS cfg). v (X i p) = 0 \<or> v (X i p) = 1) \<and>
      (\<forall>p \<in> set (PROJECTS cfg). 0 \<le> v (GD p)))"
  by (auto simp: built_vars_def list_all_append list_all_iff var_ok_def ball_Un)

lemma feasible_built_model:
  "feasible (built_model cfg students) v =
     ((\<forall>i < length students. \<forall>p \<in> set (PROJECTS cfg). v (X i p) = 0 \<or> v (X i p) = 1) \<and>
      (\<forall>p \<in> set (PROJECTS cfg). 0 \<le> v (GD p)) \<and>
      (\<forall>i < length students. (\<Sum>p \<leftarrow> PROJECTS cfg. v (X i p)) = 1) \<and>
      (\<forall>p \<in> set (PROJECTS cfg). list_all (holds v) (requirements_of cfg students p)))"
  by (simp add: feasible_def built_model_def ok_built_vars holds_built_constrs)

lemma build_model_built:
  "build_model cfg students = Inr m \<Longrightarrow> m = built_model cfg students"
  by (simp add: build_model_Inr(1) built_model_def)

text \<open>
  Claim C2. Every feasible solution of the built model satisfies the assignment
  invariant: for every student the variables \<open>x[student, project]\<close> add up to exactly
  1 over the projects; for every project the variables add up to a number between
  \<open>MIN_TEAM_SIZE\<close> and \<open>MAX_TEAM_SIZE\<close> over the students, and the two bounds are two
  separate constraints of the model; and for every project the sum weighted with the
  data science flag is at least 1, and so is the sum weighted with the project
  management flag.
\<close>

theorem feasible_assignment_invariant:
  assumes "build_model cfg students = Inr m" and "feasible m v"
  shows "(\<forall>i < length students. (\<Sum>p \<leftarrow> PROJECTS cfg. v (X i p)) = 1) \<and>
     (\<forall>p \<in> set (PROJECTS cfg).
        of_int (MIN_TEAM_SIZE cfg) \<le> (\<Sum>i \<leftarrow> [0 ..< length students]. v (X i p)) \<and>
        (\<Sum>i \<leftarrow> [0 ..< length students]. v (X i p)) \<le> of_int (MAX_TEAM_SIZE cfg) \<and>
        1 \<le> (\<Sum>i \<leftarrow> [0 ..< length students].
                of_int (data_science_skilled (students ! i)) * v (X i p)) \<and>
        1 \<le> (\<Sum>i \<leftarrow> [0 ..< length students].
                of_int (project_management_skilled (students ! i)) * v (X i p)) \<and>
        compare GE (team_size (length students) p) (num_expr (of_int (MIN_TEAM_SIZE cfg)))
          \<in> set (constrs m) \<and>
        compare LE (team_size (length students) p) (num_expr (of_int (MAX_TEAM_SIZE cfg)))
          \<in> set (constrs m))"
proof -
  note m = build_model_built [OF assms(1)]
  from assms(2) have f: "feasible (built_model cfg students) v" by (simp add: m)
  have c: "constrs m = built_constrs cfg students" by (simp add: m built_model_def)
  have "\<forall>p \<in> set (PROJECTS cfg). set (requirements_of cfg students p) \<subseteq> set (constrs m)"
    by (auto simp: c built_constrs_def)
  then have "\<forall>p \<in> set (PROJECTS cfg).
        compare GE (team_size (length students) p) (num_expr (of_int (MIN_TEAM_SIZE cfg)))
          \<in> set (constrs m) \<and>
        compare LE (team_size (length students) p) (num_expr (of_int (MAX_TEAM_SIZE cfg)))
          \<in> set (constrs m)"
    by (simp add: requirements_of_def)
  with f show ?thesis
    by (simp add: feasible_built_model holds_requirements_of)
qed

lemma expr_var_expr: "expr (var_expr y) = [(y, 1)]"
  by (simp add: var_expr_def)

lemma expr_scaled_var: "expr (scale c (var_expr y)) = [(y, c)]"
  by (simp add: scale_def var_expr_def)

lemma concat_concat_rows:
  "concat (map expr (concat (map (\<lambda>i. map (f i) ps) is))) =
     concat (map (\<lambda>i. concat (map (\<lambda>p. expr (f i p)) ps)) is)"
  by (induction "is") (simp_all add: comp_def)

lemma concat_singletons: "concat (map (\<lambda>p. [g p]) ps) = map g ps"
  by (induction ps) simp_all

lemma expr_built_objective:
  "expr (built_objective cfg students) =
     concat (map (\<lambda>i. map (\<lambda>p. (X i p, preference_rank students i p)) (PROJECTS cfg))
               [0 ..< length students])
     @ map (\<lambda>p. (GD p, 1)) (PROJECTS cfg)"
  by (simp add: built_objective_def add_expr_def expr_xsum concat_concat_rows expr_scaled_var
      concat_singletons gender_diversity_objective_function_def comp_def expr_var_expr)

lemma const_xsum: "const (xsum es) = sum_list (map const es)"
  by (simp add: xsum_def const_foldl_add_expr num_expr_def)

lemma sum_list_zero: "(\<And>x. x \<in> set xs \<Longrightarrow> f x = (0::real)) \<Longrightarrow> sum_list (map f xs) = 0"
  by (induction xs) simp_all

lemma const_built_objective: "const (built_objective cfg students) = 0"
proof -
  have "sum_list (map const (concat (map (\<lambda>i. map (\<lambda>p. scale (preference_rank students i p)
          (var_expr (X i p))) (PROJECTS cfg)) [0 ..< length students]))) = 0"
    by (rule sum_list_zero) (auto simp: scale_def var_expr_def)
  moreover have "sum_list (map const (map (\<lambda>p. var_expr (GD p)) (PROJECTS cfg))) = 0"
    by (rule sum_list_zero) (auto simp: var_expr_def)
  ultimately show ?thesis
    by (simp add: built_objective_def add_expr_def const_xsum
        gender_diversity_objective_function_def del: map_map)
qed

text \<open>
  Claim C3. The model minimises the priority term plus the diversity term, each with
  weight 1: the objective has one term \<open>preference_rank[student, project] * x[student, project]\<close>
  for every pair of a student and a project, one term \<open>1 * g[project]\<close> for every
  project, no other term and no constant, so its value is the sum of the two parts.
\<close>

theorem objective_is_priority_plus_diversity:
  assumes "build_model cfg students = Inr m"
  shows "model_sense m = MINIMIZE \<and>
     (\<forall>i < length students. \<forall>p \<in> set (PROJECTS cfg).
        preference (students ! i) p = Some (preference_rank students i p)) \<and>
     expr (objective m) =
       concat (map (\<lambda>i. map (\<lambda>p. (X i p, preference_rank students i p)) (PROJECTS cfg))
                 [0 ..< length students])
       @ map (\<lambda>p. (GD p, 1)) (PROJECTS cfg) \<and>
     const (objective m) = 0 \<and>
     (\<forall>v. eval v (objective m) =
        (\<Sum>i \<leftarrow> [0 ..< length students]. \<Sum>p \<leftarrow> PROJECTS cfg.
           preference_rank students i p * v (X i p))
        + (\<Sum>p \<leftarrow> PROJECTS cfg. v (GD p)))"
proof -
  note m = build_model_built [OF assms]
  from build_model_Inr(2) [OF assms]
  have "\<forall>i < length students. \<forall>p \<in> set (PROJECTS cfg).
        preference (students ! i) p = Some (preference_rank students i p)"
    by (auto simp: preference_rank_def)
  then show ?thesis
    by (simp add: m built_model_def expr_built_objective const_built_objective
        eval_built_objective priority_value_def diversity_value_def)
qed

lemma mentions_var_expr: "mentions (var_expr z) y = (y = z)"
  by (auto simp: mentions_def var_expr_def)

lemma mentions_num_expr: "mentions (num_expr c) y = False"
  by (simp add: mentions_def num_expr_def)

lemma mentions_scale: "mentions (scale c e) y = mentions e y"
  by (force simp: mentions_def scale_def image_iff)

lemma mentions_add_expr: "mentions (add_expr a b) y = (mentions a y \<or> mentions b y)"
  by (auto simp: mentions_def add_expr_def)

lemma mentions_sub_expr: "mentions (sub_expr a b) y = (mentions a y \<or> mentions b y)"
  by (simp add: sub_expr_def neg_expr_def mentions_add_expr mentions_scale)

lemma mentions_sense_update: "mentions (e\<lparr>sense := s\<rparr>) y = mentions e y"
  by (simp add: mentions_def)

lemma mentions_compare: "mentions (compare s a b) y = (mentions a y \<or> mentions b y)"
  by (simp add: compare_def mentions_sense_update mentions_sub_expr)

lemma mentions_xsum: "mentions (xsum es) y = (\<exists>e \<in> set es. mentions e y)"
  by (auto simp: mentions_def expr_xsum)

lemma constraints_mention_no_GD:
  "c \<in> set (built_constrs cfg students) \<Longrightarrow> \<not> mentions c (GD p)"
  by (auto simp: built_constrs_def requirements_of_def one_project_def team_size_def
      skilled_count_def mentions_compare mentions_xsum mentions_scale mentions_var_expr
      mentions_num_expr)


lemma gender_statements_mention_GD:
  "c \<in> set (gender_statements students p) \<Longrightarrow> mentions c (GD p)"
  by (auto simp: gender_statements_def mentions_compare mentions_var_expr)










text \<open>
  Claim C1, which asks for the two linking constraints \<open>g[p] \<ge> male_count[p] - female_count[p]\<close>
  and \<open>g[p] \<ge> female_count[p] - male_count[p]\<close> in the built model. The gender loop does
  evaluate two comparisons with exactly this meaning, but neither of them is a
  constraint of the model that \<open>build_model\<close> returns, for any project.
\<close>

theorem gender_constraints_not_in_model:
  assumes "build_model cfg students = Inr m"
  shows "(\<forall>c \<in> set (gender_statements students project). c \<notin> set (constrs m)) \<and>
     (\<forall>v. holds v (gender_statements students project ! 0) =
        (male_count students v project - female_count students v project \<le> v (GD project))) \<and>
     (\<forall>v. holds v (gender_statements students project ! 1) =
        (female_count students v project - male_count students v project \<le> v (GD project)))"
proof -
  note m = build_model_built [OF assms]
  have "c \<notin> set (built_constrs cfg students)"
    if "c \<in> set (gender_statements students project)" for c
    using that constraints_mention_no_GD gender_statements_mention_GD by blast
  then have "\<forall>c \<in> set (gender_statements students project). c \<notin> set (constrs m)"
    by (simp add: m built_model_def)
  then show ?thesis
    by (simp add: gender_statements_def holds_compare_GE eval_sub_expr eval_add_expr
        eval_neg_expr eval_var_expr eval_number_of_males eval_number_of_females)
qed

lemma three_prepared_ok: "data_preparation one_project_config three_students = Inr three_prepared"
  by (simp add: data_preparation_def one_project_config_def notebook_config_def
      three_students_def three_prepared_def student_16_def student_38_def student_27_def)

lemma length_three_prepared: "length three_prepared = 3"
  by (simp add: three_prepared_def)

lemma upt_3: "[0 ..< 3] = [0, 1, 2]"
  by (simp add: upt_rec)

lemma three_prepared_nth:
  "three_prepared ! 0 = add_flags student_16 True True"
  "three_prepared ! 1 = add_flags student_38 True True"
  "three_prepared ! 2 = add_flags student_27 True True"
  by (simp_all add: three_prepared_def)

lemma build_one_project:
  "build_model one_project_config three_prepared = Inr (built_model one_project_config three_prepared)"
  unfolding built_model_def
  by (rule build_model_ok)
    (simp add: length_three_prepared one_project_config_def three_prepared_def add_flags_def
      student_16_def student_38_def student_27_def less_Suc_eq eval_nat_numeral)

lemma optimal_all_in:
  "optimal (built_model one_project_config three_prepared) all_in"
proof -
  have p: "PROJECTS one_project_config = [''Helvetas'']"
    by (simp add: one_project_config_def)
  have c: "MIN_TEAM_SIZE one_project_config = 3" "MAX_TEAM_SIZE one_project_config = 5"
    by (simp_all add: one_project_config_def notebook_config_def)
  have fl: "\<And>i. i < 3 \<Longrightarrow> data_science_skilled (three_prepared ! i) = 1 \<and>
      project_management_skilled (three_prepared ! i) = 1"
    by (auto simp: three_prepared_def add_flags_def flag_def less_Suc_eq eval_nat_numeral)
  have f: "feasible (built_model one_project_config three_prepared) all_in"
    by (simp add: feasible_built_model holds_requirements_of p c length_three_prepared upt_3 fl)
  have "priority_value one_project_config three_prepared all_in
      \<le> priority_value one_project_config three_prepared w + diversity_value one_project_config w"
    if "feasible (built_model one_project_config three_prepared) w" for w
  proof -
    from that have "\<forall>i < 3. w (X i ''Helvetas'') = 1" and "0 \<le> w (GD ''Helvetas'')"
      by (simp_all add: feasible_built_model p length_three_prepared)
    then show ?thesis
      by (simp add: priority_value_def diversity_value_def p length_three_prepared upt_3)
  qed
  with f show ?thesis
    by (simp add: optimal_def built_model_def better_def eval_built_objective
        diversity_value_def one_project_config_def)
qed

text \<open>
  The three displayed students, all male, and the single project Helvetas: the built
  model lacks both comparisons, and putting all three on the project with \<open>g = 0\<close> is
  optimal although the head counts differ by 3.
\<close>

theorem gender_constraints_not_in_model_witness:
  "build_model one_project_config three_prepared
     = Inr (built_model one_project_config three_prepared) \<and>
   gender_statements three_prepared ''Helvetas'' ! 0
     \<notin> set (constrs (built_model one_project_config three_prepared)) \<and>
   gender_statements three_prepared ''Helvetas'' ! 1
     \<notin> set (constrs (built_model one_project_config three_prepared)) \<and>
   optimal (built_model one_project_config three_prepared) all_in \<and>
   all_in (GD ''Helvetas'') = 0 \<and>
   \<bar>male_count three_prepared all_in ''Helvetas'' - female_count three_prepared all_in ''Helvetas''\<bar> = 3 \<and>
   \<not> holds all_in (gender_statements three_prepared ''Helvetas'' ! 0)"
proof -
  have g: "\<And>i. i < 3 \<Longrightarrow> is_male (three_prepared ! i) = 1"
    by (auto simp: three_prepared_def add_flags_def flag_def eq_cell_def less_Suc_eq
        eval_nat_numeral student_16_def student_38_def student_27_def)
  have mc: "male_count three_prepared all_in ''Helvetas'' = 3"
    "female_count three_prepared all_in ''Helvetas'' = 0"
    by (simp_all add: male_count_def female_count_def length_three_prepared upt_3 g)
  from gender_constraints_not_in_model [OF build_one_project, of "''Helvetas''"]
  show ?thesis
    by (simp add: build_one_project optimal_all_in mc gender_statements_def)
qed


lemma one_project_PROJECTS: "PROJECTS one_project_config = [''Helvetas'']"
  by (simp add: one_project_config_def)

text \<open>Claim C2 on the three displayed students and the single project Helvetas.\<close>

theorem feasible_assignment_invariant_witness:
  "build_model one_project_config three_prepared
     = Inr (built_model one_project_config three_prepared) \<and>
   feasible (built_model one_project_config three_prepared) all_in \<and>
   (\<Sum>p \<leftarrow> PROJECTS one_project_config. all_in (X 0 p)) = 1 \<and>
   (\<Sum>i \<leftarrow> [0 ..< length three_prepared]. all_in (X i ''Helvetas'')) = 3 \<and>
   1 \<le> (\<Sum>i \<leftarrow> [0 ..< length three_prepared].
           of_int (data_science_skilled (three_prepared ! i)) * all_in (X i ''Helvetas''))"
proof -
  have f: "feasible (built_model one_project_config three_prepared) all_in"
    using optimal_all_in by (simp add: optimal_def)
  from feasible_assignment_invariant [OF build_one_project f]
  show ?thesis
    by (simp add: build_one_project f one_project_PROJECTS length_three_prepared upt_3)
qed

text \<open>Claim C3 on the same input: the four terms of the objective.\<close>

theorem objective_is_priority_plus_diversity_witness:
  "build_model one_project_config three_prepared
     = Inr (built_model one_project_config three_prepared) \<and>
   model_sense (built_model one_project_config three_prepared) = MINIMIZE \<and>
   expr (objective (built_model one_project_config three_prepared)) =
     [(X 0 ''Helvetas'', 3), (X 1 ''Helvetas'', 1), (X 2 ''Helvetas'', 3), (GD ''Helvetas'', 1)]"
proof -
  have "preference_rank three_prepared 0 ''Helvetas'' = 3"
    "preference_rank three_prepared 1 ''Helvetas'' = 1"
    "preference_rank three_prepared 2 ''Helvetas'' = 3"
    by (simp_all add: preference_rank_def three_prepared_def add_flags_def student_16_def
        student_38_def student_27_def)
  with objective_is_priority_plus_diversity [OF build_one_project]
  show ?thesis
    by (simp add: build_one_project one_project_PROJECTS length_three_prepared upt_3)
qed

section \<open>Data preparation: the flag columns\<close>

lemma column_ge_Inr:
  "column_ge cs t = Inr bs \<Longrightarrow>
     length bs = length cs \<and> (\<forall>i < length cs. ge_cell (cs ! i) t = Inr (bs ! i))"
proof (induction cs arbitrary: bs)
  case Nil
  then show ?case by simp
next
  case (Cons c cs)
  from Cons.prems obtain b bs' where b: "ge_cell c t = Inr b"
    and r: "column_ge cs t = Inr bs'" and bs: "bs = b # bs'"
    by (auto split: sum.splits)
  from Cons.IH [OF r] b bs show ?case
    by (auto simp: nth_Cons split: nat.splits)
qed

lemma column_ge_ok:
  "\<forall>c \<in> set cs. \<not> is_text c \<Longrightarrow> \<exists>bs. column_ge cs t = Inr bs"
proof (induction cs)
  case Nil
  then show ?case by simp
next
  case (Cons c cs)
  then obtain bs where "column_ge cs t = Inr bs" by auto
  moreover from Cons.prems have "\<exists>b. ge_cell c t = Inr b" by (cases c) auto
  ultimately show ?case by auto
qed

lemma data_preparation_Inr:
  assumes "data_preparation cfg students = Inr prepared"
  shows "length prepared = length students"
    and "\<forall>i < length students. \<exists>d p.
           ge_cell (ds_skill (students ! i)) (DS_SKILLED_THRESHOLD cfg) = Inr d \<and>
           ge_cell (pm_skill (students ! i)) (PM_SKILLED_THRESHOLD cfg) = Inr p \<and>
           prepared ! i = add_flags (students ! i) d p"
proof -
  from assms obtain ds pm
    where ds: "column_ge (map ds_skill students) (DS_SKILLED_THRESHOLD cfg) = Inr ds"
      and pm: "column_ge (map pm_skill students) (PM_SKILLED_THRESHOLD cfg) = Inr pm"
      and p: "prepared = map (\<lambda>i. add_flags (students ! i) (ds ! i) (pm ! i)) [0 ..< length students]"
    by (auto simp: data_preparation_def split: sum.splits)
  from p show "length prepared = length students" by simp
  from column_ge_Inr [OF ds] column_ge_Inr [OF pm] p
  show "\<forall>i < length students. \<exists>d p.
           ge_cell (ds_skill (students ! i)) (DS_SKILLED_THRESHOLD cfg) = Inr d \<and>
           ge_cell (pm_skill (students ! i)) (PM_SKILLED_THRESHOLD cfg) = Inr p \<and>
           prepared ! i = add_flags (students ! i) d p"
    by simp
qed

lemma data_preparation_ok:
  assumes "\<forall>r \<in> set students. \<not> is_text (ds_skill r) \<and> \<not> is_text (pm_skill r)"
  shows "\<exists>prepared. data_preparation cfg students = Inr prepared"
proof -
  from assms have "\<forall>c \<in> set (map ds_skill students). \<not> is_text c"
    and "\<forall>c \<in> set (map pm_skill students). \<not> is_text c" by auto
  from column_ge_ok [OF this(1), of "DS_SKILLED_THRESHOLD cfg"]
    column_ge_ok [OF this(2), of "PM_SKILLED_THRESHOLD cfg"]
  obtain ds pm where "column_ge (map ds_skill students) (DS_SKILLED_THRESHOLD cfg) = Inr ds"
    and "column_ge (map pm_skill students) (PM_SKILLED_THRESHOLD cfg) = Inr pm" by blast
  then show ?thesis by (simp add: data_preparation_def)
qed

lemma flag_simps: "(flag b = 1) = b" "(flag b = 0) = (\<not> b)" "flag b \<in> {0, 1}"
  by (simp_all add: flag_def)

text \<open>
  Claim C4. When no score is text, the data preparation cell returns a table with one
  row per student in which \<open>data_science_skilled\<close> is 1 exactly when the data science
  score is at least \<open>DS_SKILLED_THRESHOLD\<close> (a score equal to the threshold counts as
  skilled), \<open>project_management_skilled\<close> is 1 exactly when the project management score
  is at least \<open>PM_SKILLED_THRESHOLD\<close>, and \<open>is_male\<close> is 1 exactly when the gender cell
  is the text \<open>Male\<close>.
\<close>

theorem classifier_flags:
  assumes "\<forall>r \<in> set students. \<not> is_text (ds_skill r) \<and> \<not> is_text (pm_skill r)"
  shows "\<exists>prepared. data_preparation cfg students = Inr prepared \<and>
     length prepared = length students \<and>
     (\<forall>i < length students.
        (\<forall>a. ds_skill (students ! i) = Num a \<longrightarrow>
           (data_science_skilled (prepared ! i) = 1) = (DS_SKILLED_THRESHOLD cfg \<le> a)) \<and>
        (\<forall>a. pm_skill (students ! i) = Num a \<longrightarrow>
           (project_management_skilled (prepared ! i) = 1) = (PM_SKILLED_THRESHOLD cfg \<le> a)) \<and>
        (is_male (prepared ! i) = 1) = (gender (students ! i) = Text ''Male'') \<and>
        data_science_skilled (prepared ! i) \<in> {0, 1} \<and>
        project_management_skilled (prepared ! i) \<in> {0, 1} \<and>
        is_male (prepared ! i) \<in> {0, 1})"
proof -
  from data_preparation_ok [OF assms] obtain prepared
    where p: "data_preparation cfg students = Inr prepared" by auto
  have "(\<forall>a. ds_skill (students ! i) = Num a \<longrightarrow>
           (data_science_skilled (prepared ! i) = 1) = (DS_SKILLED_THRESHOLD cfg \<le> a)) \<and>
        (\<forall>a. pm_skill (students ! i) = Num a \<longrightarrow>
           (project_management_skilled (prepared ! i) = 1) = (PM_SKILLED_THRESHOLD cfg \<le> a)) \<and>
        (is_male (prepared ! i) = 1) = (gender (students ! i) = Text ''Male'') \<and>
        data_science_skilled (prepared ! i) \<in> {0, 1} \<and>
        project_management_skilled (prepared ! i) \<in> {0, 1} \<and>
        is_male (prepared ! i) \<in> {0, 1}" if "i < length students" for i
  proof -
    from data_preparation_Inr(2) [OF p] that obtain d q
      where "ge_cell (ds_skill (students ! i)) (DS_SKILLED_THRESHOLD cfg) = Inr d"
        and "ge_cell (pm_skill (students ! i)) (PM_SKILLED_THRESHOLD cfg) = Inr q"
        and "prepared ! i = add_flags (students ! i) d q" by blast
    then show ?thesis
      by (auto simp: add_flags_def flag_simps eq_cell_def)
  qed
  with p data_preparation_Inr(1) [OF p] show ?thesis by blast
qed

section \<open>The output cell\<close>

lemma assign_loop_none:
  "\<forall>p \<in> set ps. xs (X i p) \<noteq> Some 1 \<Longrightarrow> assign_loop xs i ps a = a"
  by (induction ps arbitrary: a) simp_all

lemma assign_loop_result:
  "assign_loop xs i ps a = a \<or>
     (assign_loop xs i ps a \<in> set ps \<and> xs (X i (assign_loop xs i ps a)) = Some 1)"
proof (induction ps arbitrary: a)
  case Nil
  then show ?case by simp
next
  case (Cons p ps)
  from Cons [of "if xs (X i p) = Some 1 then p else a"] show ?case
    by (auto split: if_splits)
qed

lemma assign_loop_only:
  assumes "p \<in> set ps" and "xs (X i p) = Some 1"
    and "\<forall>q \<in> set ps. q \<noteq> p \<longrightarrow> xs (X i q) \<noteq> Some 1"
  shows "assign_loop xs i ps a = p"
  using assms
proof (induction ps arbitrary: a)
  case Nil
  then show ?case by simp
next
  case (Cons q ps)
  show ?case
  proof (cases "p \<in> set ps")
    case True
    with Cons show ?thesis by simp
  next
    case False
    with Cons.prems have q: "q = p" and "\<forall>r \<in> set ps. xs (X i r) \<noteq> Some 1" by auto
    from assign_loop_none [OF this(2)] q Cons.prems(2) show ?thesis by simp
  qed
qed

lemma assigned_project_add_assigned: "assigned_project (add_assigned r a) = a"
  by (simp add: add_assigned_def)

lemma length_write_output: "length (write_output cfg students xs) = length students"
  by (simp add: write_output_def)

lemma write_output_nth:
  "i < length students \<Longrightarrow>
     assigned_project (write_output cfg students xs ! i) = assign_loop xs i (PROJECTS cfg) ''''"
  by (simp add: write_output_def assigned_project_add_assigned)

lemma run_notebook_Inr:
  "data_preparation cfg students = Inr prepared \<Longrightarrow> build_model cfg prepared = Inr m \<Longrightarrow>
     run_notebook cfg students solver =
       Inr (status (solver m), write_output cfg prepared (x_val (solver m)))"
  by (simp add: run_notebook_def Let_def)

lemma assign_loop_last:
  "assign_loop xs i ps a =
     (if filter (\<lambda>p. xs (X i p) = Some 1) ps = [] then a
      else last (filter (\<lambda>p. xs (X i p) = Some 1) ps))"
  by (induction ps arbitrary: a) simp_all

text \<open>
  Claim C5, amended. The output cell does not round. What it writes for a student is
  the last project of the list whose variable is exactly 1, and the empty text when
  there is none. So a project other than the empty text is written only if it is in
  the list and its variable is exactly 1, and a project whose variable is exactly 1 is
  written when no other project of the student has the value 1.
\<close>

theorem extraction_is_exact:
  assumes "i < length students"
  shows "assigned_project (write_output cfg students xs ! i) =
           (if filter (\<lambda>p. xs (X i p) = Some 1) (PROJECTS cfg) = [] then ''''
            else last (filter (\<lambda>p. xs (X i p) = Some 1) (PROJECTS cfg))) \<and>
         (assigned_project (write_output cfg students xs ! i) = project \<and> project \<noteq> '''' \<longrightarrow>
            project \<in> set (PROJECTS cfg) \<and> xs (X i project) = Some 1) \<and>
         (project \<in> set (PROJECTS cfg) \<and> xs (X i project) = Some 1 \<and>
            (\<forall>q \<in> set (PROJECTS cfg). q \<noteq> project \<longrightarrow> xs (X i q) \<noteq> Some 1) \<longrightarrow>
            assigned_project (write_output cfg students xs ! i) = project)"
proof -
  have "assigned_project (write_output cfg students xs ! i) =
           (if filter (\<lambda>p. xs (X i p) = Some 1) (PROJECTS cfg) = [] then ''''
            else last (filter (\<lambda>p. xs (X i p) = Some 1) (PROJECTS cfg)))"
    by (simp only: write_output_nth [OF assms] assign_loop_last)
  moreover have "project \<in> set (PROJECTS cfg) \<and> xs (X i project) = Some 1"
    if "assigned_project (write_output cfg students xs ! i) = project" and "project \<noteq> ''''"
  proof -
    from that have "assign_loop xs i (PROJECTS cfg) '''' = project"
      by (simp add: write_output_nth [OF assms])
    with assign_loop_result [of xs i "PROJECTS cfg" "''''"] that(2) show ?thesis by auto
  qed
  moreover have "assigned_project (write_output cfg students xs ! i) = project"
    if "project \<in> set (PROJECTS cfg)" and "xs (X i project) = Some 1"
      and "\<forall>q \<in> set (PROJECTS cfg). q \<noteq> project \<longrightarrow> xs (X i q) \<noteq> Some 1"
    using that by (simp add: write_output_nth [OF assms] assign_loop_only)
  ultimately show ?thesis by blast
qed

text \<open>
  Claim C10. Once the table is prepared and the model is built, the run ends with a
  written table whatever the solver returns, one row per student, and a student none of
  whose variables compares equal to 1 keeps the empty text in \<open>assigned_project\<close>.
\<close>

theorem unassigned_student_keeps_sentinel:
  assumes "data_preparation cfg students = Inr prepared"
    and "build_model cfg prepared = Inr m"
  shows "run_notebook cfg students solver =
           Inr (status (solver m), write_output cfg prepared (x_val (solver m))) \<and>
         length (write_output cfg prepared (x_val (solver m))) = length students \<and>
         (\<forall>i < length students.
            (\<forall>p \<in> set (PROJECTS cfg). x_val (solver m) (X i p) \<noteq> Some 1) \<longrightarrow>
            assigned_project (write_output cfg prepared (x_val (solver m)) ! i) = '''')"
  using data_preparation_Inr(1) [OF assms(1)]
  by (simp add: run_notebook_Inr [OF assms] length_write_output write_output_nth
      assign_loop_none)

text \<open>
  Claim C6, amended. The output cell checks nothing: also when the written table breaks
  the total assignment or the skill coverage, the run ends without an error and with
  exactly that table written.
\<close>

theorem no_consistency_check:
  assumes "data_preparation cfg students = Inr prepared"
    and "build_model cfg prepared = Inr m"
    and "out = write_output cfg prepared (x_val (solver m))"
    and "\<not> total_assignment cfg out \<or> \<not> skill_coverage cfg out"
  shows "run_notebook cfg students solver = Inr (status (solver m), out)"
  by (simp add: run_notebook_Inr [OF assms(1,2)] assms(3))

text \<open>
  Claim C7, amended. The output cell does not look at the status. After a solve that
  ends INFEASIBLE, UNBOUNDED or ERROR, with no variable value available, the run still
  ends with a written table, one row per student, every \<open>assigned_project\<close> empty; the
  status is only what the solve cell shows.
\<close>

theorem no_status_gate:
  assumes "data_preparation cfg students = Inr prepared"
    and "build_model cfg prepared = Inr m"
    and "status (solver m) \<in> {INFEASIBLE, UNBOUNDED, ERROR}"
    and "\<forall>y. x_val (solver m) y = None"
  shows "run_notebook cfg students solver =
           Inr (status (solver m), write_output cfg prepared (x_val (solver m))) \<and>
         length (write_output cfg prepared (x_val (solver m))) = length students \<and>
         (\<forall>r \<in> set (write_output cfg prepared (x_val (solver m))). assigned_project r = '''')"
proof -
  have "assigned_project r = ''''" if "r \<in> set (write_output cfg prepared (x_val (solver m)))" for r
  proof -
    from that obtain i where "i < length prepared"
      and "r = write_output cfg prepared (x_val (solver m)) ! i"
      by (auto simp: in_set_conv_nth length_write_output)
    with assms(4) show ?thesis
      by (simp add: write_output_nth assign_loop_none)
  qed
  with data_preparation_Inr(1) [OF assms(1)] show ?thesis
    by (simp add: run_notebook_Inr [OF assms(1,2)] length_write_output)
qed

lemma prepare_three:
  "data_preparation one_project_config three_students = Inr three_prepared"
  "data_preparation two_project_config three_students = Inr three_prepared"
  by (simp_all add: data_preparation_def one_project_config_def two_project_config_def
      notebook_config_def three_students_def three_prepared_def student_16_def
      student_38_def student_27_def)

lemma prepare_four:
  "data_preparation two_project_config four_students = Inr four_prepared"
  by (simp add: data_preparation_def two_project_config_def notebook_config_def
      four_students_def four_prepared_def student_16_def student_38_def student_27_def
      student_at_threshold_def)

lemma two_project_PROJECTS: "PROJECTS two_project_config = [''Helvetas'', ''Rega'']"
  by (simp add: two_project_config_def)

lemma preference_add_flags: "preference (add_flags r d p) = preference r"
  by (simp add: add_flags_def)

lemma build_two_projects_three:
  "build_model two_project_config three_prepared
     = Inr (built_model two_project_config three_prepared)"
  unfolding built_model_def
  by (rule build_model_ok)
    (simp add: two_project_PROJECTS three_prepared_def preference_add_flags
      student_16_def student_38_def student_27_def less_Suc_eq)

lemma build_two_projects_four:
  "build_model two_project_config four_prepared
     = Inr (built_model two_project_config four_prepared)"
  unfolding built_model_def
  by (rule build_model_ok)
    (simp add: two_project_PROJECTS four_prepared_def preference_add_flags
      student_16_def student_38_def student_27_def student_at_threshold_def less_Suc_eq)

lemma length_four_prepared: "length four_prepared = 4"
  by (simp add: four_prepared_def)

lemma upt_4: "[0 ..< 4] = [0, 1, 2, 3]"
  by (simp add: upt_rec)

lemma four_students_infeasible:
  "\<not> feasible (built_model two_project_config four_prepared) v"
proof
  assume "feasible (built_model two_project_config four_prepared) v"
  then have "\<forall>i < 4. v (X i ''Helvetas'') + v (X i ''Rega'') = 1"
    and "3 \<le> (\<Sum>i \<leftarrow> [0, 1, 2, 3]. v (X i ''Helvetas''))"
    and "3 \<le> (\<Sum>i \<leftarrow> [0, 1, 2, 3]. v (X i ''Rega''))"
    by (simp_all add: feasible_built_model holds_requirements_of two_project_PROJECTS
        length_four_prepared upt_4 two_project_config_def notebook_config_def)
  then have "v (X 0 ''Helvetas'') + v (X 0 ''Rega'') = 1"
    "v (X 1 ''Helvetas'') + v (X 1 ''Rega'') = 1"
    "v (X 2 ''Helvetas'') + v (X 2 ''Rega'') = 1"
    "v (X 3 ''Helvetas'') + v (X 3 ''Rega'') = 1"
    "3 \<le> v (X 0 ''Helvetas'') + v (X 1 ''Helvetas'') + v (X 2 ''Helvetas'') + v (X 3 ''Helvetas'')"
    "3 \<le> v (X 0 ''Rega'') + v (X 1 ''Rega'') + v (X 2 ''Rega'') + v (X 3 ''Rega'')"
    by simp_all
  then show False by linarith
qed

lemma assigned_column:
  "map assigned_project (write_output cfg students xs) =
     map (\<lambda>i. assign_loop xs i (PROJECTS cfg) '''') [0 ..< length students]"
  by (simp add: write_output_def assigned_project_add_assigned)

lemma written_assignment_run:
  "data_preparation cfg students = Inr prepared \<Longrightarrow> build_model cfg prepared = Inr m \<Longrightarrow>
     written_assignment (run_notebook cfg students solver) =
       Some (status (solver m),
             map (\<lambda>i. assign_loop (x_val (solver m)) i (PROJECTS cfg) '''') [0 ..< length prepared])"
  by (simp add: run_notebook_Inr written_assignment_def assigned_column)

text \<open>
  Claim C4 at the thresholds of the notebook: a student with the scores 4 and 2.5 is
  skilled in both, a student with 3 and 1.5 in neither, and the gender \<open>male\<close> in lower
  case is not \<open>Male\<close>.
\<close>

theorem classifier_flags_witness:
  "\<exists>prepared. data_preparation notebook_config boundary_students = Inr prepared \<and>
     data_science_skilled (prepared ! 0) = 1 \<and>
     project_management_skilled (prepared ! 0) = 1 \<and>
     is_male (prepared ! 0) = 0 \<and>
     data_science_skilled (prepared ! 1) = 0 \<and>
     project_management_skilled (prepared ! 1) = 0 \<and>
     is_male (prepared ! 1) = 0 \<and>
     is_male (prepared ! 2) = 1"
proof -
  have "\<forall>r \<in> set boundary_students. \<not> is_text (ds_skill r) \<and> \<not> is_text (pm_skill r)"
    by (simp add: boundary_students_def student_at_threshold_def student_below_threshold_def
        student_16_def)
  from classifier_flags [OF this, of notebook_config] obtain prepared
    where p: "data_preparation notebook_config boundary_students = Inr prepared"
      and ds: "\<And>i a. i < length boundary_students \<Longrightarrow> ds_skill (boundary_students ! i) = Num a \<Longrightarrow>
           (data_science_skilled (prepared ! i) = 1) = (DS_SKILLED_THRESHOLD notebook_config \<le> a)"
      and pm: "\<And>i a. i < length boundary_students \<Longrightarrow> pm_skill (boundary_students ! i) = Num a \<Longrightarrow>
           (project_management_skilled (prepared ! i) = 1) = (PM_SKILLED_THRESHOLD notebook_config \<le> a)"
      and male: "\<And>i. i < length boundary_students \<Longrightarrow>
           (is_male (prepared ! i) = 1) = (gender (boundary_students ! i) = Text ''Male'')"
      and bits: "\<And>i. i < length boundary_students \<Longrightarrow>
           data_science_skilled (prepared ! i) \<in> {0, 1} \<and>
           project_management_skilled (prepared ! i) \<in> {0, 1} \<and>
           is_male (prepared ! i) \<in> {0, 1}"
    by blast
  have "data_science_skilled (prepared ! 0) = 1"
    using ds [of 0 4]
    by (simp add: boundary_students_def student_at_threshold_def notebook_config_def)
  moreover have "project_management_skilled (prepared ! 0) = 1"
    using pm [of 0 "5 / 2"]
    by (simp add: boundary_students_def student_at_threshold_def notebook_config_def)
  moreover have "is_male (prepared ! 0) = 0"
    using male [of 0] bits [of 0]
    by (simp add: boundary_students_def student_at_threshold_def)
  moreover have "data_science_skilled (prepared ! 1) = 0"
    using ds [of 1 3] bits [of 1]
    by (simp add: boundary_students_def student_below_threshold_def notebook_config_def)
  moreover have "project_management_skilled (prepared ! 1) = 0"
    using pm [of 1 "3 / 2"] bits [of 1]
    by (simp add: boundary_students_def student_below_threshold_def notebook_config_def)
  moreover have "is_male (prepared ! 1) = 0"
    using male [of 1] bits [of 1]
    by (simp add: boundary_students_def student_below_threshold_def)
  moreover have "is_male (prepared ! 2) = 1"
    using male [of 2]
    by (simp add: boundary_students_def student_16_def)
  ultimately show ?thesis using p by blast
qed





text \<open>
  Against claim C5 as stated: the solver returns 0.9999997 for the first student and
  Helvetas, and the student is written out without a project.
\<close>

theorem rounding_counterexample:
  "almost_one (X 0 ''Helvetas'') = 9999997 / 10000000 \<and>
   written_assignment (run_notebook one_project_config three_students (solved almost_one))
     = Some (OPTIMAL, ['''', ''Helvetas'', ''Helvetas''])"
  by (simp add: written_assignment_run [OF prepare_three(1) build_one_project] solved_def
      one_project_PROJECTS length_three_prepared upt_3)

text \<open>
  The amended claim C5 on the same solver result, for the second and the first student,
  and on two projects that both have the value 1: the later one, Rega, is written.
\<close>

theorem extraction_is_exact_witness:
  "assigned_project
     (write_output one_project_config three_prepared (\<lambda>y. Some (almost_one y)) ! 1)
     = ''Helvetas'' \<and>
   assigned_project
     (write_output one_project_config three_prepared (\<lambda>y. Some (almost_one y)) ! 0)
     \<noteq> ''Helvetas'' \<and>
   assigned_project
     (write_output two_project_config three_prepared (\<lambda>y. Some (all_in y)) ! 0)
     = ''Rega''"
  using extraction_is_exact [of 1 three_prepared one_project_config
      "\<lambda>y. Some (almost_one y)" "''Helvetas''"]
    extraction_is_exact [of 0 three_prepared one_project_config
      "\<lambda>y. Some (almost_one y)" "''Helvetas''"]
    extraction_is_exact [of 0 three_prepared two_project_config
      "\<lambda>y. Some (all_in y)" "''Rega''"]
  by (simp add: length_three_prepared one_project_PROJECTS two_project_PROJECTS)

text \<open>
  Against claim C6 as stated: with two projects and every student put on Helvetas, no
  member of Rega has a skill flag, and the run still ends with the table written.
\<close>

theorem consistency_counterexample:
  "written_assignment (run_notebook two_project_config three_students (solved all_to_Helvetas))
     = Some (OPTIMAL, [''Helvetas'', ''Helvetas'', ''Helvetas'']) \<and>
   \<not> skill_coverage two_project_config
       (write_output two_project_config three_prepared (\<lambda>y. Some (all_to_Helvetas y)))"
proof -
  have "\<not> skill_coverage two_project_config
       (write_output two_project_config three_prepared (\<lambda>y. Some (all_to_Helvetas y)))"
    by (simp add: skill_coverage_def two_project_PROJECTS write_output_def
        length_three_prepared upt_3 assigned_project_add_assigned)
  then show ?thesis
    by (simp add: written_assignment_run [OF prepare_three(2) build_two_projects_three]
        solved_def two_project_PROJECTS length_three_prepared upt_3)
qed

text \<open>The amended claim C6 on a table that leaves the first student without a project.\<close>

theorem no_consistency_check_witness:
  "\<not> total_assignment one_project_config
       (write_output one_project_config three_prepared (\<lambda>y. Some (almost_one y))) \<and>
   run_notebook one_project_config three_students (solved almost_one)
     = Inr (OPTIMAL, write_output one_project_config three_prepared (\<lambda>y. Some (almost_one y)))"
proof -
  have t: "\<not> total_assignment one_project_config
       (write_output one_project_config three_prepared (\<lambda>y. Some (almost_one y)))"
    by (simp add: total_assignment_def one_project_PROJECTS write_output_def
        length_three_prepared upt_3 assigned_project_add_assigned)
  from no_consistency_check [OF prepare_three(1) build_one_project, of _ "solved almost_one"] t
  show ?thesis by (simp add: solved_def)
qed

text \<open>
  Against claim C7 as stated: two projects, at least three students each, only four
  students. The solve ends INFEASIBLE and the table is still written, every student
  without a project.
\<close>

theorem status_gate_counterexample:
  "written_assignment (run_notebook two_project_config four_students (no_solution INFEASIBLE))
     = Some (INFEASIBLE, ['''', '''', '''', ''''])"
  by (simp add: written_assignment_run [OF prepare_four build_two_projects_four]
      no_solution_def two_project_PROJECTS length_four_prepared upt_4)

text \<open>
  The amended claim C7 on the same input, whose model indeed has no feasible solution.
\<close>

theorem no_status_gate_witness:
  "\<not> (\<exists>v. feasible (built_model two_project_config four_prepared) v) \<and>
   run_notebook two_project_config four_students (no_solution INFEASIBLE)
     = Inr (INFEASIBLE, write_output two_project_config four_prepared (\<lambda>y. None)) \<and>
   length (write_output two_project_config four_prepared (\<lambda>y. None)) = 4 \<and>
   list_all (\<lambda>r. assigned_project r = '''')
     (write_output two_project_config four_prepared (\<lambda>y. None))"
  using no_status_gate [OF prepare_four build_two_projects_four, of "no_solution INFEASIBLE"]
  by (simp add: no_solution_def four_students_infeasible four_students_def list_all_iff)

text \<open>Claim C10 on a solver result that gives every variable the value one half.\<close>

theorem unassigned_student_keeps_sentinel_witness:
  "run_notebook two_project_config three_students (solved half)
     = Inr (OPTIMAL, write_output two_project_config three_prepared (\<lambda>y. Some (half y))) \<and>
   assigned_project (write_output two_project_config three_prepared (\<lambda>y. Some (half y)) ! 0)
     = '''' \<and>
   assigned_project (write_output two_project_config three_prepared (\<lambda>y. Some (half y)) ! 2)
     = ''''"
  using unassigned_student_keeps_sentinel [OF prepare_three(2) build_two_projects_three,
      of "solved half"]
  by (simp add: solved_def three_students_def)

end
